theory Spec2Isabelle
  imports
    Complex_Main
    "HOL-Library.Char_ord"
    "HOL-Library.List_Lexorder"
    "HOL-Library.Option_ord"
    "HOL-Library.Multiset"
begin

section \<open>The MACS2 peak-calling wrapper (encode_task_macs2_chip.py)\<close>

text \<open>
  The wrapper builds three shell commands, runs them one after the other, hands the
  result to \<open>bed_clip\<close> and removes its temporary files. This theory has two layers:
  \<^item> what the shell text of \<open>cmd1\<close> (\<open>sort | awk\<close>) and \<open>cmd2\<close> (\<open>head\<close>) computes on the
    rows of a narrowPeak file;
  \<^item> the Python function \<open>macs2\<close> itself: the names it derives, the command strings it
    formats and the order of its external calls, with every call that can raise
    modelled as a branch.
\<close>

subsection \<open>Decimal text of integers\<close>

text \<open>
  Python's \<open>'{}'.format(n)\<close> for an \<open>int\<close>, and awk's conversion of an integral number
  to a string, both give the decimal numeral without leading zeros, with a leading
  minus sign for a negative number.
\<close>

definition digit_char :: "nat \<Rightarrow> char" where
  "digit_char d = ''0123456789'' ! d"

fun show_nat :: "nat \<Rightarrow> string" where
  "show_nat n =
     (if n < 10 then [digit_char n]
      else show_nat (n div 10) @ [digit_char (n mod 10)])"

declare show_nat.simps [simp del]

definition show_int :: "int \<Rightarrow> string" where
  "show_int i = (if i < 0 then CHR ''-'' # show_nat (nat (- i)) else show_nat (nat i))"

subsection \<open>Rows of a narrowPeak file\<close>

text \<open>
  One line of the file \<open><prefix>_peaks.narrowPeak\<close> that MACS2 writes: ten columns
  separated by TAB. Columns 2, 3 and 10 are the ones the awk program reads as numbers;
  they are integers in decimal. The remaining columns are kept as the text found in
  the file, because awk passes them through untouched and \<open>sort\<close> compares whole lines
  byte by byte. The text columns are taken to be non-empty and free of blanks, as MACS2
  writes them, so that the field splitting of \<open>sort\<close> and \<open>awk\<close> agrees with the columns.
\<close>

record peak =
  chrom :: string
  chromStart :: int
  chromEnd :: int
  name :: string
  score :: string
  strand :: string
  signalValue :: string
  pValue :: string
  qValue :: string
  summit :: int

definition TAB :: char where
  "TAB = CHR 0x09"

definition line_of :: "peak \<Rightarrow> string" where
  "line_of r =
     chrom r @ TAB # show_int (chromStart r) @ TAB # show_int (chromEnd r) @ TAB #
     name r @ TAB # score r @ TAB # strand r @ TAB # signalValue r @ TAB #
     pValue r @ TAB # qValue r @ TAB # show_int (summit r)"

subsection \<open>cmd1, first half: \<open>LC_COLLATE=C sort -k 8gr,8gr\<close>\<close>

text \<open>
  The only key is column 8, compared as a general number (\<open>g\<close>) in reverse (\<open>r\<close>).
  The numeric reading of a column's text is the parameter \<open>g\<close>: \<open>sort\<close> orders the
  keys by a total preorder (conversion failures first, then numbers by value), which
  is a key function into a linear order. The command has neither \<open>-s\<close> nor \<open>-u\<close>, so two
  lines whose keys compare equal are ordered by the last-resort comparison: the whole
  lines, byte by byte, ascending (the \<open>r\<close> is attached to the key, not global).
  \<open>sort_before g a b\<close> says that line \<open>a\<close> may stand before line \<open>b\<close> in the output.
\<close>

definition sort_before :: "(string \<Rightarrow> 'k::linorder) \<Rightarrow> peak \<Rightarrow> peak \<Rightarrow> bool" where
  "sort_before g a b =
     (g (pValue b) < g (pValue a) \<or>
      (g (pValue a) = g (pValue b) \<and> line_of a \<le> line_of b))"

text \<open>
  The output of \<open>sort\<close> is the input ordered by that comparison. Lines that the
  comparison cannot tell apart are byte-identical, so the sorting algorithm does not
  show in the output; an insertion sort stands for it.
\<close>

fun insert_line :: "(string \<Rightarrow> 'k::linorder) \<Rightarrow> peak \<Rightarrow> peak list \<Rightarrow> peak list" where
  "insert_line g r [] = [r]"
| "insert_line g r (x # xs) =
     (if sort_before g r x then r # x # xs else x # insert_line g r xs)"

fun sort_8gr :: "(string \<Rightarrow> 'k::linorder) \<Rightarrow> peak list \<Rightarrow> peak list" where
  "sort_8gr g [] = []"
| "sort_8gr g (r # rs) = insert_line g r (sort_8gr g rs)"

subsection \<open>cmd1, second half: the awk program\<close>

text \<open>
  \<^verbatim>\<open>BEGIN{OFS="\t"}
  {$4="Peak_"NR; if ($2<0) $2=0; if ($3<0) $3=0;
   if ($10==-1) $10=$2+int(($3-$2+1)/2.0); print $0}\<close>

  awk's \<open>int\<close> truncates towards zero. The assignments run in the order written, so the
  summit is computed from the start and end already clamped. awk computes in double
  precision, which is exact on integers below \<open>2^53\<close>; the model uses unbounded integers.
  Assigning to a field makes awk rebuild the line with \<open>OFS\<close> between the columns; the
  text of the columns that are not assigned is kept.
\<close>

definition awk_int_half :: "int \<Rightarrow> int" where
  "awk_int_half n = (if n < 0 then - ((- n) div 2) else n div 2)"

definition awk_record :: "nat \<Rightarrow> peak \<Rightarrow> peak" where
  "awk_record nr r =
     (let r1 = r\<lparr>name := ''Peak_'' @ show_nat nr\<rparr>;
          r2 = (if chromStart r1 < 0 then r1\<lparr>chromStart := 0\<rparr> else r1);
          r3 = (if chromEnd r2 < 0 then r2\<lparr>chromEnd := 0\<rparr> else r2)
      in if summit r3 = - 1
         then r3\<lparr>summit := chromStart r3 + awk_int_half (chromEnd r3 - chromStart r3 + 1)\<rparr>
         else r3)"

text \<open>The main loop of awk: \<open>nr\<close> is the record number \<open>NR\<close> of the first line of the list.\<close>

fun awk_from :: "nat \<Rightarrow> peak list \<Rightarrow> peak list" where
  "awk_from nr [] = []"
| "awk_from nr (r # rs) = awk_record nr r # awk_from (Suc nr) rs"

definition awk :: "peak list \<Rightarrow> peak list" where
  "awk rs = awk_from 1 rs"

subsection \<open>cmd2: \<open>head -n cap_num_peak\<close>\<close>

text \<open>
  \<open>cap_num_peak\<close> is a Python \<open>int\<close> (\<open>type=int\<close>) formatted into the command, so a negative
  value reaches \<open>head\<close> as \<open>-n -K\<close>, which in GNU coreutils (the \<open>g\<close> key of \<open>sort\<close> in
  \<open>cmd1\<close> is theirs too) prints all but the last \<open>K\<close> lines.
\<close>

definition head_n :: "int \<Rightarrow> 'a list \<Rightarrow> 'a list" where
  "head_n n xs = (if 0 \<le> n then take (nat n) xs else take (length xs - nat (- n)) xs)"

subsection \<open>bed_clip\<close>

text \<open>
  Modelled from the spec: \<open>bed_clip\<close> is imported from \<open>encode_lib_genomic\<close>, which is not
  among the sources. Section 4.4 of the specification: the chromosome length is looked
  up by \<open>chrom\<close>; a record whose chromosome is absent from the table is dropped; start
  becomes \<open>max(start, 0)\<close> and end becomes \<open>min(end, chrom_length - 1)\<close>; a record whose
  clamped start exceeds its clamped end is dropped; the records kept stay in order.
\<close>

definition clip_record :: "(string \<rightharpoonup> int) \<Rightarrow> peak \<Rightarrow> peak option" where
  "clip_record chrsz r =
     (case chrsz (chrom r) of
        None \<Rightarrow> None
      | Some chrom_length \<Rightarrow>
          (let s = max (chromStart r) 0; e = min (chromEnd r) (chrom_length - 1)
           in if e < s then None else Some (r\<lparr>chromStart := s, chromEnd := e\<rparr>)))"

text \<open>
  Modelled from the spec: the clipper of section 4.4 applied to a whole file; it keeps
  the order of the records it keeps.
\<close>

definition bed_clip :: "(string \<rightharpoonup> int) \<Rightarrow> peak list \<Rightarrow> peak list" where
  "bed_clip chrsz rs = List.map_filter (clip_record chrsz) rs"

text \<open>
  Modelled from the spec: whether the clipper of section 4.4 keeps a record.
\<close>

definition clip_keeps :: "(string \<rightharpoonup> int) \<Rightarrow> peak \<Rightarrow> bool" where
  "clip_keeps chrsz r = (case clip_record chrsz r of None \<Rightarrow> False | Some _ \<Rightarrow> True)"

subsection \<open>The rows of the final artifact\<close>

text \<open>
  The data flow of \<open>macs2\<close> after the peak caller has run: \<open>cmd1\<close> writes the sorted and
  renumbered rows to \<open>npeak_tmp\<close>, \<open>cmd2\<close> writes their head to \<open>npeak_tmp2\<close>, and
  \<open>bed_clip\<close> writes the clipped rows to \<open>npeak\<close>.
\<close>

definition npeak_tmp_rows :: "(string \<Rightarrow> 'k::linorder) \<Rightarrow> peak list \<Rightarrow> peak list" where
  "npeak_tmp_rows g raw = awk (sort_8gr g raw)"

definition npeak_tmp2_rows :: "(string \<Rightarrow> 'k::linorder) \<Rightarrow> int \<Rightarrow> peak list \<Rightarrow> peak list" where
  "npeak_tmp2_rows g cap_num_peak raw = head_n cap_num_peak (npeak_tmp_rows g raw)"

definition npeak_rows ::
  "(string \<Rightarrow> 'k::linorder) \<Rightarrow> int \<Rightarrow> (string \<rightharpoonup> int) \<Rightarrow> peak list \<Rightarrow> peak list" where
  "npeak_rows g cap_num_peak chrsz raw = bed_clip chrsz (npeak_tmp2_rows g cap_num_peak raw)"

subsection \<open>A reading of decimal numerals\<close>

text \<open>
  The numeric reading used at concrete inputs: an optional sign, digits, and an
  optional fraction after a point, read off the front of the text as \<open>strtold\<close> does
  for such numerals (this is what MACS2 writes into columns 7 to 9). A text with no
  digit at its front does not convert (\<open>None\<close>), and \<open>sort -g\<close> puts conversion
  failures before all numbers, as \<open>None\<close> stands below every \<open>Some\<close>. Exponents,
  infinities and NaN are not read; the general theorems below hold for every reading.
\<close>

definition is_digit :: "char \<Rightarrow> bool" where
  "is_digit c = (c \<in> set ''0123456789'')"

definition digit_value :: "char \<Rightarrow> nat" where
  "digit_value c = length (takeWhile (\<lambda>d. d \<noteq> c) ''0123456789'')"

definition nat_of_digits :: "string \<Rightarrow> nat" where
  "nat_of_digits ds = foldl (\<lambda>a c. 10 * a + digit_value c) 0 ds"

definition unsigned_numeric :: "string \<Rightarrow> rat option" where
  "unsigned_numeric s =
     (let ip = takeWhile is_digit s;
          rest = dropWhile is_digit s;
          fp = (case rest of
                  [] \<Rightarrow> []
                | c # t \<Rightarrow> if c = CHR ''.'' then takeWhile is_digit t else [])
      in if ip = [] \<and> fp = [] then None
         else Some (of_nat (nat_of_digits ip) + of_nat (nat_of_digits fp) / 10 ^ length fp))"

definition general_numeric :: "string \<Rightarrow> rat option" where
  "general_numeric s =
     (case s of
        [] \<Rightarrow> None
      | c # t \<Rightarrow>
          if c = CHR ''-'' then map_option uminus (unsigned_numeric t)
          else if c = CHR ''+'' then unsigned_numeric t
          else unsigned_numeric s)"

subsection \<open>Paths and helper functions of the library\<close>

text \<open>\<open>os.path.basename\<close> and \<open>os.path.join\<close> (two arguments) of Python's \<open>posixpath\<close>.\<close>

definition os_path_basename :: "string \<Rightarrow> string" where
  "os_path_basename p = rev (takeWhile (\<lambda>c. c \<noteq> CHR ''/'') (rev p))"

definition startswith_sep :: "string \<Rightarrow> bool" where
  "startswith_sep b = (case b of [] \<Rightarrow> False | c # _ \<Rightarrow> c = CHR ''/'')"

definition endswith_sep :: "string \<Rightarrow> bool" where
  "endswith_sep a = startswith_sep (rev a)"

definition os_path_join :: "string \<Rightarrow> string \<Rightarrow> string" where
  "os_path_join a b =
     (if startswith_sep b then b
      else if a = [] then b
      else if endswith_sep a then a @ b
      else a @ CHR ''/'' # b)"

text \<open>
  \<open>strip_ext_ta\<close> and \<open>human_readable_number\<close> are imported from \<open>encode_lib_common\<close>,
  which is not among the sources; \<open>macs2\<close> only passes their results on, so they are
  parameters of the model.
\<close>

record lib =
  strip_ext_ta :: "string \<Rightarrow> string"
  human_readable_number :: "int \<Rightarrow> string"

subsection \<open>External calls\<close>

text \<open>
  Every call that leaves the process is recorded, in order, as an \<open>action\<close>. What the
  outside world answers is the \<open>world\<close>: whether a shell command exits with status
  zero, the size of a file, the path a subsampling call returns, whether \<open>bed_clip\<close>
  and the emptiness check go through. A call that raises ends the run with an \<open>error\<close>;
  the source has no \<open>try\<close>, so nothing after the raising call is executed.
\<close>

datatype action =
    SubsampleTaPe string int string
  | SubsampleTaSe string int string
  | RunShellCmd string
  | GetSize string
  | BedClip string string string
  | RmF "string list"
  | MkdirP string
  | AssertFileNotEmpty string
  | LsL string

datatype error =
    UsageError
  | SubsampleError
  | ExternalProcessError string
  | FileNotFoundError string
  | BedClipError
  | EmptyOutputError string

record world =
  subsample_pe_out :: "string \<Rightarrow> int \<Rightarrow> string \<Rightarrow> string option"
  subsample_se_out :: "string \<Rightarrow> int \<Rightarrow> string \<Rightarrow> string option"
  shell_exit_ok :: "string \<Rightarrow> bool"
  file_size :: "string \<Rightarrow> nat option"
  bed_clip_ok :: "string \<Rightarrow> string \<Rightarrow> string \<Rightarrow> bool"
  file_not_empty :: "string \<Rightarrow> bool"

type_synonym 'a run = "action list \<times> (error + 'a)"

text \<open>Sequencing of statements: the second runs only if the first did not raise.\<close>

definition and_then :: "'a run \<Rightarrow> ('a \<Rightarrow> 'b run) \<Rightarrow> 'b run" where
  "and_then m f =
     (case m of
        (tr, Inl e) \<Rightarrow> (tr, Inl e)
      | (tr, Inr x) \<Rightarrow> (case f x of (tr', y) \<Rightarrow> (tr @ tr', y)))"

definition return :: "'a \<Rightarrow> 'a run" where
  "return x = ([], Inr x)"

definition subsample_ta_pe :: "world \<Rightarrow> string \<Rightarrow> int \<Rightarrow> string \<Rightarrow> string run" where
  "subsample_ta_pe W ctl_ta ctl_subsample out_dir =
     ([SubsampleTaPe ctl_ta ctl_subsample out_dir],
      case subsample_pe_out W ctl_ta ctl_subsample out_dir of
        None \<Rightarrow> Inl SubsampleError
      | Some p \<Rightarrow> Inr p)"

definition subsample_ta_se :: "world \<Rightarrow> string \<Rightarrow> int \<Rightarrow> string \<Rightarrow> string run" where
  "subsample_ta_se W ctl_ta ctl_subsample out_dir =
     ([SubsampleTaSe ctl_ta ctl_subsample out_dir],
      case subsample_se_out W ctl_ta ctl_subsample out_dir of
        None \<Rightarrow> Inl SubsampleError
      | Some p \<Rightarrow> Inr p)"

definition run_shell_cmd :: "world \<Rightarrow> string \<Rightarrow> unit run" where
  "run_shell_cmd W cmd =
     ([RunShellCmd cmd],
      if shell_exit_ok W cmd then Inr () else Inl (ExternalProcessError cmd))"

definition getsize :: "world \<Rightarrow> string \<Rightarrow> nat run" where
  "getsize W f =
     ([GetSize f], case file_size W f of None \<Rightarrow> Inl (FileNotFoundError f) | Some n \<Rightarrow> Inr n)"

definition call_bed_clip :: "world \<Rightarrow> string \<Rightarrow> string \<Rightarrow> string \<Rightarrow> unit run" where
  "call_bed_clip W bed chrsz out_clipped_bed =
     ([BedClip bed chrsz out_clipped_bed],
      if bed_clip_ok W bed chrsz out_clipped_bed then Inr () else Inl BedClipError)"

definition rm_f :: "string list \<Rightarrow> unit run" where
  "rm_f files = ([RmF files], Inr ())"

definition mkdir_p :: "string \<Rightarrow> unit run" where
  "mkdir_p d = ([MkdirP d], Inr ())"

definition assert_file_not_empty :: "world \<Rightarrow> string \<Rightarrow> unit run" where
  "assert_file_not_empty W f =
     ([AssertFileNotEmpty f], if file_not_empty W f then Inr () else Inl (EmptyOutputError f))"

definition ls_l :: "string \<Rightarrow> unit run" where
  "ls_l d = ([LsL d], Inr ())"

fun is_subsample :: "action \<Rightarrow> bool" where
  "is_subsample (SubsampleTaPe _ _ _) = True"
| "is_subsample (SubsampleTaSe _ _ _) = True"
| "is_subsample _ = False"

fun is_rm_f :: "action \<Rightarrow> bool" where
  "is_rm_f (RmF _) = True"
| "is_rm_f _ = False"

subsection \<open>macs2\<close>

text \<open>
  Lines 59 to 70: the control file that the rest of the function uses. Python tests the
  truth of \<open>ctl_ta\<close> (a non-empty string) and of \<open>ctl_subsample\<close> (a non-zero integer).
\<close>

definition control_ta :: "world \<Rightarrow> string \<Rightarrow> int \<Rightarrow> bool \<Rightarrow> string \<Rightarrow> string run" where
  "control_ta W ctl_ta ctl_subsample ctl_paired_end out_dir =
     (if ctl_ta = [] then return ctl_ta
      else if ctl_subsample = 0 then return ctl_ta
      else if ctl_paired_end then subsample_ta_pe W ctl_ta ctl_subsample out_dir
      else subsample_ta_se W ctl_ta ctl_subsample out_dir)"

text \<open>
  Lines 58 and 72 to 77. \<open>ctl_given\<close> is the outcome of the test in line 59, made on the
  argument as passed; \<open>ctl_ta\<close> is the variable as it stands in line 72, after the
  subsampling call may have replaced it. \<open>len\<close> counts the characters of the string.
\<close>

definition basename_prefix :: "lib \<Rightarrow> string \<Rightarrow> bool \<Rightarrow> string \<Rightarrow> string" where
  "basename_prefix L ta ctl_given ctl_ta =
     (let basename_ta = os_path_basename (strip_ext_ta L ta)
      in if ctl_given
         then (let basename_ctl_ta = os_path_basename (strip_ext_ta L ctl_ta);
                   joined = basename_ta @ ''_x_'' @ basename_ctl_ta
               in if 200 < length joined then basename_ta @ ''_x_control'' else joined)
         else basename_ta)"

text \<open>
  Lines 79 to 84. \<open>pval_thresh\<close> is a Python float; the model carries the text that
  \<open>'{}'.format\<close> gives for it, which is all the function does with the value.
\<close>

definition npeak_name :: "lib \<Rightarrow> string \<Rightarrow> string \<Rightarrow> int \<Rightarrow> string" where
  "npeak_name L prefix pval_thresh cap_num_peak =
     prefix @ ''.'' @ (''pval'' @ pval_thresh) @ ''.'' @
     human_readable_number L cap_num_peak @ ''.narrowPeak.gz''"

text \<open>
  Lines 87 to 97. The format string has seven places and the sixth, after \<open>--shift\<close>, is
  filled with the literal \<open>0\<close>. The control part is chosen on the truth of \<open>ctl_ta\<close> as it
  stands in line 92.
\<close>

definition cmd0 ::
  "string \<Rightarrow> string \<Rightarrow> string \<Rightarrow> string \<Rightarrow> string \<Rightarrow> int \<Rightarrow> int \<Rightarrow> string" where
  "cmd0 ta ctl_ta prefix gensz pval_thresh shift fraglen =
     '' macs2 callpeak '' @
     ''-t '' @ ta @ '' '' @ (if ctl_ta = [] then [] else ''-c '' @ ctl_ta) @
     '' -f BED -n '' @ prefix @ '' -g '' @ gensz @ '' -p '' @ pval_thresh @ '' '' @
     ''--nomodel --shift '' @ show_int 0 @ '' --extsize '' @ show_int fraglen @
     '' --keep-dup all -B --SPMR''"

text \<open>
  Line 104, \<open>int(math.ceil(peaks_size * 2 / (1024 * 1024)))\<close>, with the division of
  Python 3.
\<close>

definition sort_mem_mb :: "nat \<Rightarrow> nat" where
  "sort_mem_mb peaks_size = (peaks_size * 2 + (1024 * 1024 - 1)) div (1024 * 1024)"

definition DQ :: char where
  "DQ = CHR 0x22"

definition SQ :: char where
  "SQ = CHR 0x27"

definition BS :: char where
  "BS = CHR 0x5C"

text \<open>Lines 106 to 113 and 116 to 119: the two post-processing commands, as formatted.\<close>

definition cmd1 :: "nat \<Rightarrow> string \<Rightarrow> string \<Rightarrow> string" where
  "cmd1 mem prefix npeak_tmp =
     ''LC_COLLATE=C sort -S '' @ show_nat mem @ ''M -k 8gr,8gr '' @
     DQ # prefix @ ''_peaks.narrowPeak'' @ DQ # '' | '' @
     ''awk '' @ SQ # ''BEGIN{OFS='' @ DQ # BS # ''t'' @ DQ # ''}'' @
     ''{$4='' @ DQ # ''Peak_'' @ DQ # ''NR; if ($2<0) $2=0; if ($3<0) $3=0; if ($10==-1) '' @
     ''$10=$2+int(($3-$2+1)/2.0); print $0}'' @ SQ # '' > '' @ npeak_tmp"

definition cmd2 :: "int \<Rightarrow> string \<Rightarrow> string \<Rightarrow> string" where
  "cmd2 cap_num_peak npeak_tmp npeak_tmp2 =
     ''head -n '' @ show_int cap_num_peak @ '' '' @ npeak_tmp @ '' > '' @ npeak_tmp2"

text \<open>Lines 98 to 131: the calls made once the names are fixed, in the order written.\<close>

definition call_peaks ::
  "world \<Rightarrow> string \<Rightarrow> string \<Rightarrow> string \<Rightarrow> string \<Rightarrow> string \<Rightarrow> int \<Rightarrow> int \<Rightarrow> int \<Rightarrow>
   string \<Rightarrow> string \<Rightarrow> string run" where
  "call_peaks W ta ctl_ta chrsz gensz pval_thresh shift fraglen cap_num_peak prefix npeak =
     (let npeak_tmp = npeak @ ''.tmp'';
          npeak_tmp2 = npeak @ ''.tmp2''
      in and_then (run_shell_cmd W (cmd0 ta ctl_ta prefix gensz pval_thresh shift fraglen)) (\<lambda>_.
         and_then (getsize W (prefix @ ''_peaks.narrowPeak'')) (\<lambda>peaks_size.
         and_then (run_shell_cmd W (cmd1 (sort_mem_mb peaks_size) prefix npeak_tmp)) (\<lambda>_.
         and_then (run_shell_cmd W (cmd2 cap_num_peak npeak_tmp npeak_tmp2)) (\<lambda>_.
         and_then (call_bed_clip W npeak_tmp2 chrsz npeak) (\<lambda>_.
         and_then (rm_f [npeak_tmp, npeak_tmp2]) (\<lambda>_.
         and_then (rm_f [prefix @ ''_*'']) (\<lambda>_.
         return npeak))))))))"

definition macs2 ::
  "lib \<Rightarrow> world \<Rightarrow> string \<Rightarrow> string \<Rightarrow> string \<Rightarrow> string \<Rightarrow> string \<Rightarrow> int \<Rightarrow> int \<Rightarrow> int \<Rightarrow>
   int \<Rightarrow> bool \<Rightarrow> string \<Rightarrow> string run" where
  "macs2 L W ta ctl_ta chrsz gensz pval_thresh shift fraglen cap_num_peak
         ctl_subsample ctl_paired_end out_dir =
     and_then (control_ta W ctl_ta ctl_subsample ctl_paired_end out_dir) (\<lambda>ctl_ta'.
       (let prefix = os_path_join out_dir (basename_prefix L ta (ctl_ta \<noteq> []) ctl_ta');
            npeak = npeak_name L prefix pval_thresh cap_num_peak
        in call_peaks W ta ctl_ta' chrsz gensz pval_thresh shift fraglen cap_num_peak
             prefix npeak))"

subsection \<open>parse_arguments and main\<close>

text \<open>
  The namespace that \<open>argparse\<close> returns. \<open>nargs='+'\<close> makes the parser stop with a usage
  error when no path is given; lines 49 and 50 append the empty control.
\<close>

record args =
  args_tas :: "string list"
  args_fraglen :: int
  args_shift :: int
  args_chrsz :: string
  args_gensz :: string
  args_pval_thresh :: string
  args_cap_num_peak :: int
  args_ctl_subsample :: int
  args_ctl_paired_end :: bool
  args_out_dir :: string

definition parse_arguments :: "args \<Rightarrow> error + args" where
  "parse_arguments a =
     (if args_tas a = [] then Inl UsageError
      else if length (args_tas a) = 1 then Inr (a\<lparr>args_tas := args_tas a @ ['''']\<rparr>)
      else Inr a)"

definition main :: "lib \<Rightarrow> world \<Rightarrow> args \<Rightarrow> unit run" where
  "main L W argv =
     (case parse_arguments argv of
        Inl e \<Rightarrow> ([], Inl e)
      | Inr a \<Rightarrow>
          and_then (mkdir_p (args_out_dir a)) (\<lambda>_.
          and_then (macs2 L W (args_tas a ! 0) (args_tas a ! 1) (args_chrsz a) (args_gensz a)
                      (args_pval_thresh a) (args_shift a) (args_fraglen a)
                      (args_cap_num_peak a) (args_ctl_subsample a) (args_ctl_paired_end a)
                      (args_out_dir a)) (\<lambda>npeak.
          and_then (assert_file_not_empty W npeak) (\<lambda>_.
          ls_l (args_out_dir a)))))"

subsection \<open>Concrete inputs\<close>

text \<open>
  Three rows of a raw peak file. \<open>row_a\<close> and \<open>row_b\<close> have the same p-value column;
  \<open>row_c\<close> has the largest p-value column and the smallest signal column.
\<close>

definition row_a :: peak where
  "row_a = \<lparr>chrom = ''chr2'', chromStart = 100, chromEnd = 200, name = ''rep1_peak_1'',
            score = ''72'', strand = ''.'', signalValue = ''3.5'', pValue = ''7.25'',
            qValue = ''5.1'', summit = - 1\<rparr>"

definition row_b :: peak where
  "row_b = \<lparr>chrom = ''chr1'', chromStart = - 5, chromEnd = 10, name = ''rep1_peak_2'',
            score = ''72'', strand = ''.'', signalValue = ''9.5'', pValue = ''7.25'',
            qValue = ''5.1'', summit = 3\<rparr>"

definition row_c :: peak where
  "row_c = \<lparr>chrom = ''chr1'', chromStart = 300, chromEnd = 400, name = ''rep1_peak_3'',
            score = ''125'', strand = ''.'', signalValue = ''2.0'', pValue = ''12.5'',
            qValue = ''9.9'', summit = 20\<rparr>"

definition raw_rows :: "peak list" where
  "raw_rows = [row_a, row_b, row_c]"

definition chrsz_table :: "string \<rightharpoonup> int" where
  "chrsz_table = map_of [(''chr1'', 1000), (''chr2'', 1000)]"

text \<open>
  Stand-ins for the two library helpers at concrete inputs: the extension
  \<open>.tagAlign.gz\<close> is cut off, and the cap is printed in decimal.
\<close>

definition cut_tagalign :: "string \<Rightarrow> string" where
  "cut_tagalign p =
     (if drop (length p - 12) p = ''.tagAlign.gz'' then take (length p - 12) p else p)"

definition sample_lib :: lib where
  "sample_lib = \<lparr>strip_ext_ta = cut_tagalign, human_readable_number = show_int\<rparr>"

text \<open>A world in which every external call goes through, and variants in which one fails.\<close>

definition good_world :: world where
  "good_world =
     \<lparr>subsample_pe_out = (\<lambda>ta n d. Some (''ctl.sub.tagAlign.gz'')),
      subsample_se_out = (\<lambda>ta n d. Some (''ctl.sub.tagAlign.gz'')),
      shell_exit_ok = (\<lambda>cmd. True),
      file_size = (\<lambda>f. Some 3000000),
      bed_clip_ok = (\<lambda>bed chrsz out. True),
      file_not_empty = (\<lambda>f. True)\<rparr>"

definition clip_fails_world :: world where
  "clip_fails_world = good_world\<lparr>bed_clip_ok := (\<lambda>bed chrsz out. False)\<rparr>"

definition sample_args :: args where
  "sample_args =
     \<lparr>args_tas = [''rep1.tagAlign.gz''], args_fraglen = 200, args_shift = 5,
      args_chrsz = ''hg38.chrom.sizes'', args_gensz = ''hs'', args_pval_thresh = ''0.01'',
      args_cap_num_peak = 500000, args_ctl_subsample = 0, args_ctl_paired_end = False,
      args_out_dir = ''out''\<rparr>"

section \<open>Auxiliary facts\<close>

lemmas num_eval =
  general_numeric_def unsigned_numeric_def nat_of_digits_def digit_value_def is_digit_def

lemmas text_eval = show_int_def show_nat.simps digit_char_def line_of_def TAB_def

lemmas rows_eval = raw_rows_def row_a_def row_b_def row_c_def

lemmas run_eval =
  and_then_def return_def run_shell_cmd_def getsize_def call_bed_clip_def rm_f_def
  mkdir_p_def assert_file_not_empty_def ls_l_def subsample_ta_pe_def subsample_ta_se_def

lemmas path_eval =
  os_path_basename_def os_path_join_def startswith_sep_def endswith_sep_def
  cut_tagalign_def sample_lib_def

lemmas world_eval = good_world_def clip_fails_world_def

lemmas rows_pipeline_eval =
  npeak_rows_def npeak_tmp2_rows_def npeak_tmp_rows_def awk_def head_n_def sort_before_def
  awk_record_def awk_int_half_def Let_def bed_clip_def clip_record_def chrsz_table_def

subsection \<open>Decimal text is injective\<close>

lemma digit_char_inj: "d < 10 \<Longrightarrow> e < 10 \<Longrightarrow> digit_char d = digit_char e \<Longrightarrow> d = e"
proof -
  assume d: "d < 10" and e: "e < 10" and eq: "digit_char d = digit_char e"
  have dist: "distinct ''0123456789''" by simp
  have len: "length ''0123456789'' = 10" by simp
  from eq have "''0123456789'' ! d = ''0123456789'' ! e" by (simp only: digit_char_def)
  with dist d e len show "d = e" by (simp only: nth_eq_iff_index_eq)
qed

lemma show_nat_nonempty: "show_nat n \<noteq> []"
  by (subst show_nat.simps) simp

lemma show_nat_small: "n < 10 \<Longrightarrow> show_nat n = [digit_char n]"
  by (subst show_nat.simps) simp

lemma show_nat_large:
  "\<not> n < 10 \<Longrightarrow> show_nat n = show_nat (n div 10) @ [digit_char (n mod 10)]"
  by (subst show_nat.simps) simp

lemma show_nat_inj: "show_nat m = show_nat n \<Longrightarrow> m = n"
proof (induction m arbitrary: n rule: show_nat.induct)
  case (1 m)
  show ?case
  proof (cases "m < 10")
    case msmall: True
    show ?thesis
    proof (cases "n < 10")
      case True
      with msmall "1.prems" show ?thesis
        by (simp add: show_nat_small digit_char_inj)
    next
      case False
      with msmall "1.prems" show_nat_nonempty [of "n div 10"] show ?thesis
        by (simp add: show_nat_small show_nat_large)
    qed
  next
    case mlarge: False
    show ?thesis
    proof (cases "n < 10")
      case True
      with mlarge "1.prems" show_nat_nonempty [of "m div 10"] show ?thesis
        by (simp add: show_nat_small show_nat_large)
    next
      case False
      with mlarge "1.prems" have a: "show_nat (m div 10) = show_nat (n div 10)"
        and b: "digit_char (m mod 10) = digit_char (n mod 10)"
        by (simp_all add: show_nat_large)
      from "1.IH" [OF mlarge a] have q: "m div 10 = n div 10" .
      have "m mod 10 = n mod 10"
        by (rule digit_char_inj [OF _ _ b]) simp_all
      with q show ?thesis
        by (metis div_mult_mod_eq)
    qed
  qed
qed

lemma show_int_0: "show_int 0 = ''0''"
  by (simp add: text_eval)

subsection \<open>The comparison of sort is a total preorder, and the output is ordered by it\<close>

lemma sort_before_total: "sort_before g a b \<or> sort_before g b a"
  unfolding sort_before_def
  by (cases "g (pValue a)" "g (pValue b)" rule: linorder_cases) auto

lemma sort_before_trans:
  "sort_before g a b \<Longrightarrow> sort_before g b c \<Longrightarrow> sort_before g a c"
  unfolding sort_before_def by auto

lemma sort_before_key: "sort_before g a b \<Longrightarrow> g (pValue b) \<le> g (pValue a)"
  unfolding sort_before_def by auto

lemma sort_before_tie:
  "sort_before g a b \<Longrightarrow> g (pValue a) = g (pValue b) \<Longrightarrow> line_of a \<le> line_of b"
  unfolding sort_before_def by auto

lemma set_insert_line: "set (insert_line g r xs) = insert r (set xs)"
  by (induction xs) auto

lemma mset_insert_line: "mset (insert_line g r xs) = add_mset r (mset xs)"
  by (induction xs) auto

lemma mset_sort_8gr: "mset (sort_8gr g rs) = mset rs"
  by (induction rs) (auto simp: mset_insert_line)

lemma sorted_insert_line:
  "sorted_wrt (sort_before g) xs \<Longrightarrow> sorted_wrt (sort_before g) (insert_line g r xs)"
proof (induction xs)
  case Nil
  then show ?case by simp
next
  case (Cons x xs)
  show ?case
  proof (cases "sort_before g r x")
    case True
    with Cons.prems show ?thesis
      by (auto intro: sort_before_trans)
  next
    case False
    with sort_before_total [of g r x] have "sort_before g x r" by blast
    with False Cons show ?thesis
      by (auto simp: set_insert_line)
  qed
qed

lemma sorted_sort_8gr: "sorted_wrt (sort_before g) (sort_8gr g rs)"
  by (induction rs) (auto intro: sorted_insert_line)

lemma sort_raw_rows: "sort_8gr general_numeric raw_rows = [row_c, row_b, row_a]"
  by (simp add: rows_eval num_eval text_eval sort_before_def)

subsection \<open>What awk does to one record and to the list\<close>

lemma awk_record_name: "name (awk_record nr r) = ''Peak_'' @ show_nat nr"
  by (simp add: awk_record_def Let_def)

lemma awk_record_chromStart:
  "chromStart (awk_record nr r) = (if chromStart r < 0 then 0 else chromStart r)"
  by (simp add: awk_record_def Let_def)

lemma awk_record_chromEnd:
  "chromEnd (awk_record nr r) = (if chromEnd r < 0 then 0 else chromEnd r)"
  by (simp add: awk_record_def Let_def)

lemma awk_record_passthrough:
  "chrom (awk_record nr r) = chrom r"
  "score (awk_record nr r) = score r"
  "strand (awk_record nr r) = strand r"
  "signalValue (awk_record nr r) = signalValue r"
  "pValue (awk_record nr r) = pValue r"
  "qValue (awk_record nr r) = qValue r"
  by (simp_all add: awk_record_def Let_def)

lemma length_awk_from: "length (awk_from nr rs) = length rs"
  by (induction rs arbitrary: nr) auto

lemma awk_from_nth: "i < length rs \<Longrightarrow> awk_from nr rs ! i = awk_record (nr + i) (rs ! i)"
proof (induction rs arbitrary: nr i)
  case Nil
  then show ?case by simp
next
  case (Cons r rs)
  then show ?case by (cases i) auto
qed

lemma map_awk_from:
  "map f (awk_from nr rs) = map (\<lambda>i. f (awk_record (nr + i) (rs ! i))) [0..<length rs]"
  by (rule nth_equalityI) (simp_all add: length_awk_from awk_from_nth)

lemma names_awk_from:
  "map name (awk_from nr rs) = map (\<lambda>i. ''Peak_'' @ show_nat (nr + i)) [0..<length rs]"
  by (simp add: map_awk_from awk_record_name)

lemma map_awk_field:
  assumes "\<And>nr r. f (awk_record nr r) = h r"
  shows "map f (awk_from nr rs) = map h rs"
  by (rule nth_equalityI) (simp_all add: length_awk_from awk_from_nth assms)

subsection \<open>head keeps a prefix; clipping keeps names and drops rows\<close>

lemma head_n_take:
  "head_n n xs = take (if 0 \<le> n then nat n else length xs - nat (- n)) xs"
  by (simp add: head_n_def)

lemma take_upt_min: "take k [0..<n] = [0..<min k n]"
proof (cases "k \<le> n")
  case True
  then show ?thesis by (simp add: min_def)
next
  case False
  then show ?thesis by (simp add: min_def)
qed

lemma names_take_awk:
  "map name (take k (awk rs)) =
     map (\<lambda>i. ''Peak_'' @ show_nat (Suc i)) [0..<length (take k (awk rs))]"
proof -
  have "map name (take k (awk rs)) = take k (map name (awk rs))"
    by (simp add: take_map)
  also have "\<dots> = take k (map (\<lambda>i. ''Peak_'' @ show_nat (Suc i)) [0..<length rs])"
    by (simp add: awk_def names_awk_from)
  also have "\<dots> = map (\<lambda>i. ''Peak_'' @ show_nat (Suc i)) [0..<min k (length rs)]"
    by (simp only: take_map take_upt_min)
  finally show ?thesis
    by (simp add: awk_def length_awk_from min.commute)
qed

lemma distinct_peak_names: "distinct (map (\<lambda>i. ''Peak_'' @ show_nat (Suc i)) [0..<n])"
  by (simp add: distinct_map inj_on_def) (blast dest: show_nat_inj)

lemma length_bed_clip: "length (bed_clip chrsz rs) \<le> length rs"
  by (simp add: bed_clip_def map_filter_def)

lemma clip_record_name: "clip_record chrsz r = Some r' \<Longrightarrow> name r' = name r"
  by (auto simp: clip_record_def Let_def split: option.splits if_splits)

lemma names_bed_clip:
  "map name (bed_clip chrsz rs) = map name (filter (clip_keeps chrsz) rs)"
proof (induction rs)
  case Nil
  show ?case by (simp add: bed_clip_def)
next
  case (Cons r rs)
  then show ?case
    by (cases "clip_record chrsz r")
       (auto simp: bed_clip_def clip_keeps_def dest: clip_record_name)
qed

section \<open>The post-processing of the peak file\<close>

subsection \<open>C1: the order of the sorted rows\<close>

text \<open>
  C1, as stated: the sorter orders the rows by field 7 (the signal value), descending,
  so that each earlier row has a field-7 score at least that of each later row.
  The key of \<open>cmd1\<close> is \<open>-k 8gr,8gr\<close>: column 8, the p-value column. On \<open>raw_rows\<close>
  the output starts with \<open>row_c\<close> (p-value 12.5, signal 2.0) followed by \<open>row_b\<close>
  (p-value 7.25, signal 9.5): the earlier row has the smaller field-7 score.
\<close>

theorem sort_8gr_not_by_column_7:
  "sort_8gr general_numeric raw_rows = [row_c, row_b, row_a] \<and>
   general_numeric (signalValue row_c) < general_numeric (signalValue row_b)"
  by (simp add: rows_eval num_eval text_eval sort_before_def)

text \<open>
  C1, amended: the output of the sorter holds the same rows as its input, ordered by
  column 8 (the p-value column) read as a number, descending: every earlier row has a
  column-8 value at least that of every later row. This holds for every numeric
  reading \<open>g\<close> of the column.
\<close>

theorem sort_8gr_descending_by_column_8:
  "mset (sort_8gr g raw) = mset raw \<and>
   sorted_wrt (\<lambda>a b. g (pValue b) \<le> g (pValue a)) (sort_8gr g raw)"
proof -
  have "sorted_wrt (\<lambda>a b. g (pValue b) \<le> g (pValue a)) (sort_8gr g raw)"
    by (rule sorted_wrt_mono_rel [OF _ sorted_sort_8gr]) (rule sort_before_key)
  then show ?thesis by (simp add: mset_sort_8gr)
qed

subsection \<open>C2: the summit column\<close>

text \<open>
  C2: a row whose summit column is \<open>-1\<close> gets \<open>floor((end - start + 1) / 2)\<close>, the
  offset of the midpoint from the start; a row with any other summit keeps it.
  The awk program tests column 10 for the sentinel \<open>-1\<close> of the narrowPeak format, in
  which that column is an offset from the start, and leaves every other value as the
  peak caller wrote it; but the value it assigns is \<open>$2+int(($3-$2+1)/2.0)\<close>, with the
  start added. \<open>row_a\<close> (start 100, end 200, summit \<open>-1\<close>) is the third row after
  sorting and leaves awk with summit 150, where the claim says 50: an offset beyond
  the length of the row, beside the offsets 20 and 3 that the other two rows keep.
\<close>

theorem summit_is_not_half_length:
  "summit row_a = - 1 \<and>
   npeak_tmp_rows general_numeric raw_rows ! 2 = awk_record 3 row_a \<and>
   summit (awk_record 3 row_a) = 150 \<and>
   (chromEnd row_a - chromStart row_a + 1) div 2 = 50 \<and>
   (chromEnd (awk_record 3 row_a) - chromStart (awk_record 3 row_a) + 1) div 2 = 50 \<and>
   map summit (npeak_tmp_rows general_numeric raw_rows) = [20, 3, 150]"
  by (simp add: npeak_tmp_rows_def awk_def rows_eval num_eval text_eval sort_before_def
      awk_record_def awk_int_half_def Let_def)

text \<open>
  What the awk program writes into the summit column, for every list of rows: the
  start and end are the clamped ones, and a summit other than \<open>-1\<close> is kept.
\<close>

lemma awk_summit_column:
  "map summit (awk rs) =
     map (\<lambda>r. let s = (if chromStart r < 0 then 0 else chromStart r);
                  e = (if chromEnd r < 0 then 0 else chromEnd r)
              in if summit r = - 1 then s + awk_int_half (e - s + 1) else summit r) rs"
  unfolding awk_def
  by (rule map_awk_field) (simp add: awk_record_def Let_def)

subsection \<open>C5: rows with equal keys\<close>

text \<open>
  C5, as stated: two rows with equal sort keys keep the relative order they had in the
  raw input. \<open>cmd1\<close> calls \<open>sort\<close> without \<open>-s\<close>, so equal keys fall to the comparison of
  whole lines. \<open>row_a\<close> (on chr2) stands before \<open>row_b\<close> (on chr1) in \<open>raw_rows\<close>, both
  have the p-value column \<open>7.25\<close>, and \<open>row_b\<close> stands before \<open>row_a\<close> in the output.
\<close>

theorem sort_8gr_not_stable:
  "raw_rows = [row_a, row_b, row_c] \<and>
   general_numeric (pValue row_a) = general_numeric (pValue row_b) \<and>
   row_a \<noteq> row_b \<and>
   sort_8gr general_numeric raw_rows = [row_c, row_b, row_a]"
  by (simp add: rows_eval num_eval text_eval sort_before_def)

text \<open>
  C5, amended: two rows with equal sort keys stand in the output in the ascending byte
  order of their whole lines, whatever their order in the raw input.
\<close>

theorem sort_8gr_ties_by_line:
  "sorted_wrt (\<lambda>a b. g (pValue a) = g (pValue b) \<longrightarrow> line_of a \<le> line_of b)
     (sort_8gr g raw)"
  by (rule sorted_wrt_mono_rel [OF _ sorted_sort_8gr]) (simp add: sort_before_tie)

text \<open>Witness for C5: the two tied rows of \<open>raw_rows\<close>.\<close>

theorem sort_8gr_ties_by_line_witness:
  "general_numeric (pValue row_b) = general_numeric (pValue row_a) \<and>
   sort_8gr general_numeric raw_rows = [row_c, row_b, row_a] \<and>
   line_of row_b \<le> line_of row_a"
proof -
  have k: "general_numeric (pValue row_b) = general_numeric (pValue row_a)"
    by (simp add: rows_eval)
  from sort_8gr_ties_by_line [of general_numeric raw_rows]
  have "sorted_wrt (\<lambda>a b. general_numeric (pValue a) = general_numeric (pValue b) \<longrightarrow>
          line_of a \<le> line_of b) [row_c, row_b, row_a]"
    by (simp only: sort_raw_rows)
  with k have "line_of row_b \<le> line_of row_a" by simp
  with sort_raw_rows k show ?thesis by simp
qed

subsection \<open>C6: the cap\<close>

text \<open>
  C6, as stated: for every input the final artifact has at most \<open>cap_num_peak\<close> rows.
  \<open>cap_num_peak\<close> is any integer; with \<open>-1\<close> the command is \<open>head -n -1\<close>, which drops
  the last row only, and two of the three rows of \<open>raw_rows\<close> reach the artifact.
\<close>

theorem negative_cap_is_no_bound:
  "length (npeak_rows general_numeric (- 1) chrsz_table raw_rows) = 2 \<and>
   \<not> int (length (npeak_rows general_numeric (- 1) chrsz_table raw_rows)) \<le> - 1"
  by (simp add: rows_pipeline_eval rows_eval num_eval text_eval)

text \<open>
  C6, amended: for every input with \<open>cap_num_peak \<ge> 0\<close>, the truncate step keeps the
  first \<open>cap_num_peak\<close> rows of the sorted, normalized sequence, clipping adds no row,
  and the final artifact has at most \<open>cap_num_peak\<close> rows.
\<close>

theorem cap_num_peak_bounds_output:
  assumes "0 \<le> cap_num_peak"
  shows "npeak_tmp2_rows g cap_num_peak raw = take (nat cap_num_peak) (npeak_tmp_rows g raw) \<and>
     length (npeak_rows g cap_num_peak chrsz raw) \<le> length (npeak_tmp2_rows g cap_num_peak raw) \<and>
     int (length (npeak_rows g cap_num_peak chrsz raw)) \<le> cap_num_peak"
proof -
  from assms
  have a: "npeak_tmp2_rows g cap_num_peak raw = take (nat cap_num_peak) (npeak_tmp_rows g raw)"
    by (simp add: npeak_tmp2_rows_def head_n_def)
  have b: "length (npeak_rows g cap_num_peak chrsz raw) \<le> length (npeak_tmp2_rows g cap_num_peak raw)"
    unfolding npeak_rows_def by (rule length_bed_clip)
  from a have "length (npeak_tmp2_rows g cap_num_peak raw) \<le> nat cap_num_peak" by simp
  with b assms have "int (length (npeak_rows g cap_num_peak chrsz raw)) \<le> cap_num_peak"
    by linarith
  with a b show ?thesis by simp
qed

text \<open>Witness for C6: three raw rows and a cap of two.\<close>

theorem cap_num_peak_bounds_output_witness:
  "(0::int) \<le> 2 \<and>
   npeak_tmp2_rows general_numeric 2 raw_rows = take 2 (npeak_tmp_rows general_numeric raw_rows) \<and>
   int (length (npeak_rows general_numeric 2 chrsz_table raw_rows)) \<le> 2"
  using cap_num_peak_bounds_output [of 2 general_numeric raw_rows chrsz_table] by simp

subsection \<open>C7: the names\<close>

text \<open>
  C7: the rows of the sorted-then-capped sequence are named \<open>Peak_1\<close>, \<open>Peak_2\<close>, ... by
  position; the rows of the final artifact are those of them that clipping keeps, each
  under the name it had there; and no name occurs twice in the final artifact.
\<close>

theorem peak_names_by_rank:
  "map name (npeak_tmp2_rows g cap_num_peak raw) =
     map (\<lambda>i. ''Peak_'' @ show_nat (Suc i)) [0..<length (npeak_tmp2_rows g cap_num_peak raw)] \<and>
   map name (npeak_rows g cap_num_peak chrsz raw) =
     map name (filter (clip_keeps chrsz) (npeak_tmp2_rows g cap_num_peak raw)) \<and>
   distinct (map name (npeak_rows g cap_num_peak chrsz raw))"
proof -
  let ?capped = "npeak_tmp2_rows g cap_num_peak raw"
  have a: "map name ?capped = map (\<lambda>i. ''Peak_'' @ show_nat (Suc i)) [0..<length ?capped]"
    unfolding npeak_tmp2_rows_def npeak_tmp_rows_def head_n_take by (rule names_take_awk)
  have b: "map name (npeak_rows g cap_num_peak chrsz raw) =
      map name (filter (clip_keeps chrsz) ?capped)"
    unfolding npeak_rows_def by (rule names_bed_clip)
  have "distinct (map name ?capped)"
    by (subst a) (rule distinct_peak_names)
  then have "distinct (map name (filter (clip_keeps chrsz) ?capped))"
    by (rule distinct_map_filter)
  with a b show ?thesis by simp
qed

text \<open>The scenario of the specification: three rows, a cap of two.\<close>

lemma peak_names_scenario:
  "map name (npeak_rows general_numeric 2 chrsz_table raw_rows) = [''Peak_1'', ''Peak_2'']"
  by (simp add: rows_pipeline_eval rows_eval num_eval text_eval)

subsection \<open>C8: the clamps and the untouched columns\<close>

text \<open>
  C8: awk puts out one row for every row it reads, in the same order, whatever the
  coordinates are; a negative start becomes 0 and a negative end becomes 0, each on its
  own; and the columns chrom, score, strand, signalValue, pValue and qValue leave awk as
  they entered it.
\<close>

theorem awk_clamps_and_passes_through:
  "length (awk rs) = length rs \<and>
   map chromStart (awk rs) = map (\<lambda>r. if chromStart r < 0 then 0 else chromStart r) rs \<and>
   map chromEnd (awk rs) = map (\<lambda>r. if chromEnd r < 0 then 0 else chromEnd r) rs \<and>
   map chrom (awk rs) = map chrom rs \<and>
   map score (awk rs) = map score rs \<and>
   map strand (awk rs) = map strand rs \<and>
   map signalValue (awk rs) = map signalValue rs \<and>
   map pValue (awk rs) = map pValue rs \<and>
   map qValue (awk rs) = map qValue rs"
  unfolding awk_def
  by (simp add: length_awk_from map_awk_field awk_record_chromStart awk_record_chromEnd
      awk_record_passthrough)

text \<open>A row whose clamped start exceeds its clamped end leaves awk all the same.\<close>

lemma awk_keeps_inverted_row:
  "map chromStart (awk [row_b\<lparr>chromStart := 10, chromEnd := - 5\<rparr>]) = [10] \<and>
   map chromEnd (awk [row_b\<lparr>chromStart := 10, chromEnd := - 5\<rparr>]) = [0]"
  by (simp add: awk_def awk_record_def Let_def row_b_def)

section \<open>The function macs2\<close>

subsection \<open>Sequencing and the calls of call_peaks\<close>

lemma and_then_Inr:
  "and_then m f = (tr, Inr y) \<Longrightarrow>
   \<exists>t1 x t2. m = (t1, Inr x) \<and> f x = (t2, Inr y) \<and> tr = t1 @ t2"
  by (cases m) (auto simp: and_then_def split: sum.splits prod.splits)

lemma and_then_Inl:
  "and_then m f = (tr, Inl e) \<Longrightarrow>
   m = (tr, Inl e) \<or> (\<exists>t1 x t2. m = (t1, Inr x) \<and> f x = (t2, Inl e) \<and> tr = t1 @ t2)"
  by (cases m) (auto simp: and_then_def split: sum.splits prod.splits)

lemma return_and_then: "and_then (return x) f = f x"
  by (simp add: and_then_def return_def split: prod.splits)

lemma mkdir_and_then: "and_then (mkdir_p d) f = (MkdirP d # fst (f ()), snd (f ()))"
  by (simp add: and_then_def mkdir_p_def split: prod.splits)

lemma filter_and_then:
  assumes m: "filter P (fst m) = []" and f: "\<And>x. filter P (fst (f x)) = []"
  shows "filter P (fst (and_then m f)) = []"
proof -
  obtain tr r where mr: "m = (tr, r)" by (cases m)
  show ?thesis
  proof (cases r)
    case (Inl e)
    with m mr show ?thesis by (simp add: and_then_def)
  next
    case (Inr x)
    obtain tr' y where fx: "f x = (tr', y)" by (cases "f x")
    with f [of x] have "filter P tr' = []" by simp
    with m mr Inr fx show ?thesis by (simp add: and_then_def)
  qed
qed

lemma call_peaks_Inr:
  "call_peaks W ta ctl_ta chrsz gensz pval_thresh shift fraglen cap_num_peak prefix npeak =
     (tr, Inr r) \<Longrightarrow>
   r = npeak \<and>
   (\<exists>tr0. tr = tr0 @ [RmF [npeak @ ''.tmp'', npeak @ ''.tmp2''], RmF [prefix @ ''_*'']])"
  unfolding call_peaks_def Let_def run_eval
  by (auto split: if_splits option.splits)

lemma call_peaks_error:
  "call_peaks W ta ctl_ta chrsz gensz pval_thresh shift fraglen cap_num_peak prefix npeak =
     (tr, Inl e) \<Longrightarrow>
   e \<noteq> EmptyOutputError f"
  unfolding call_peaks_def Let_def run_eval
  by (auto split: if_splits option.splits)

lemma call_peaks_no_subsample:
  "filter is_subsample
     (fst (call_peaks W ta ctl_ta chrsz gensz pval_thresh shift fraglen cap_num_peak
             prefix npeak)) = []"
  unfolding call_peaks_def Let_def run_eval
  by (auto split: if_splits option.splits)

lemma call_peaks_first:
  "hd (fst (call_peaks W ta ctl_ta chrsz gensz pval_thresh shift fraglen cap_num_peak
              prefix npeak)) =
     RunShellCmd (cmd0 ta ctl_ta prefix gensz pval_thresh shift fraglen)"
  unfolding call_peaks_def Let_def run_eval
  by (auto split: if_splits option.splits)

lemma call_peaks_nonempty:
  "fst (call_peaks W ta ctl_ta chrsz gensz pval_thresh shift fraglen cap_num_peak
          prefix npeak) \<noteq> []"
  unfolding call_peaks_def Let_def run_eval
  by (auto split: if_splits option.splits)

lemma cmd0_no_control:
  "cmd0 ta [] prefix gensz pval_thresh shift fraglen =
     '' macs2 callpeak -t '' @ ta @ ''  -f BED -n '' @ prefix @ '' -g '' @ gensz @
     '' -p '' @ pval_thresh @ '' --nomodel --shift 0 --extsize '' @ show_int fraglen @
     '' --keep-dup all -B --SPMR''"
  by (simp add: cmd0_def show_int_0)

lemma control_ta_empty: "control_ta W [] ctl_subsample ctl_paired_end out_dir = return []"
  by (simp add: control_ta_def)

lemma control_ta_error:
  "control_ta W ctl_ta ctl_subsample ctl_paired_end out_dir = (tr, Inl e) \<Longrightarrow>
   e = SubsampleError"
  by (auto simp: control_ta_def return_def subsample_ta_pe_def subsample_ta_se_def
      split: if_splits option.splits)

lemma macs2_no_control:
  "macs2 L W ta [] chrsz gensz pval_thresh shift fraglen cap_num_peak
     ctl_subsample ctl_paired_end out_dir =
   call_peaks W ta [] chrsz gensz pval_thresh shift fraglen cap_num_peak
     (os_path_join out_dir (os_path_basename (strip_ext_ta L ta)))
     (npeak_name L (os_path_join out_dir (os_path_basename (strip_ext_ta L ta)))
        pval_thresh cap_num_peak)"
  by (simp add: macs2_def control_ta_empty return_and_then basename_prefix_def Let_def)

lemma macs2_error:
  assumes "macs2 L W ta ctl_ta chrsz gensz pval_thresh shift fraglen cap_num_peak
             ctl_subsample ctl_paired_end out_dir = (tr, Inl e)"
  shows "e \<noteq> EmptyOutputError f"
proof -
  from and_then_Inl [OF assms [unfolded macs2_def Let_def]]
  show ?thesis
  proof
    assume "control_ta W ctl_ta ctl_subsample ctl_paired_end out_dir = (tr, Inl e)"
    then show ?thesis by (auto dest: control_ta_error)
  next
    assume "\<exists>t1 x t2.
       control_ta W ctl_ta ctl_subsample ctl_paired_end out_dir = (t1, Inr x) \<and>
       call_peaks W ta x chrsz gensz pval_thresh shift fraglen cap_num_peak
         (os_path_join out_dir (basename_prefix L ta (ctl_ta \<noteq> []) x))
         (npeak_name L (os_path_join out_dir (basename_prefix L ta (ctl_ta \<noteq> []) x))
            pval_thresh cap_num_peak) = (t2, Inl e) \<and> tr = t1 @ t2"
    then show ?thesis by (auto dest: call_peaks_error)
  qed
qed

lemma macs2_Inr_trace:
  assumes "macs2 L W ta ctl_ta chrsz gensz pval_thresh shift fraglen cap_num_peak
             ctl_subsample ctl_paired_end out_dir = (tr, Inr npeak)"
  shows "\<exists>tr0 pat. tr = tr0 @ [RmF [npeak @ ''.tmp'', npeak @ ''.tmp2''], RmF [pat]]"
proof -
  from assms obtain t1 c t2 where
    "call_peaks W ta c chrsz gensz pval_thresh shift fraglen cap_num_peak
       (os_path_join out_dir (basename_prefix L ta (ctl_ta \<noteq> []) c))
       (npeak_name L (os_path_join out_dir (basename_prefix L ta (ctl_ta \<noteq> []) c))
          pval_thresh cap_num_peak) = (t2, Inr npeak)"
    and tr: "tr = t1 @ t2"
    unfolding macs2_def Let_def by (blast dest: and_then_Inr)
  from call_peaks_Inr [OF this(1)] obtain tr0 where
    "t2 = tr0 @ [RmF [npeak @ ''.tmp'', npeak @ ''.tmp2''],
                 RmF [os_path_join out_dir (basename_prefix L ta (ctl_ta \<noteq> []) c) @ ''_*'']]"
    by auto
  with tr have "tr = (t1 @ tr0) @ [RmF [npeak @ ''.tmp'', npeak @ ''.tmp2''],
                 RmF [os_path_join out_dir (basename_prefix L ta (ctl_ta \<noteq> []) c) @ ''_*'']]"
    by simp
  then show ?thesis by blast
qed

lemma call_peaks_Inr_trace:
  "call_peaks W ta ctl_ta chrsz gensz pval_thresh shift fraglen cap_num_peak prefix npeak =
     (tr, Inr r) \<Longrightarrow>
   r = npeak \<and>
   (\<exists>peaks_size.
      file_size W (prefix @ ''_peaks.narrowPeak'') = Some peaks_size \<and>
      tr = [RunShellCmd (cmd0 ta ctl_ta prefix gensz pval_thresh shift fraglen),
            GetSize (prefix @ ''_peaks.narrowPeak''),
            RunShellCmd (cmd1 (sort_mem_mb peaks_size) prefix (npeak @ ''.tmp'')),
            RunShellCmd (cmd2 cap_num_peak (npeak @ ''.tmp'') (npeak @ ''.tmp2'')),
            BedClip (npeak @ ''.tmp2'') chrsz npeak,
            RmF [npeak @ ''.tmp'', npeak @ ''.tmp2''],
            RmF [prefix @ ''_*'']])"
  unfolding call_peaks_def Let_def run_eval
  by (auto split: if_splits option.splits)

lemma call_peaks_Inl_no_rm_f:
  "call_peaks W ta ctl_ta chrsz gensz pval_thresh shift fraglen cap_num_peak prefix npeak =
     (tr, Inl e) \<Longrightarrow>
   filter is_rm_f tr = []"
  unfolding call_peaks_def Let_def run_eval
  by (auto split: if_splits option.splits)

lemma control_ta_no_rm_f:
  "control_ta W ctl_ta ctl_subsample ctl_paired_end out_dir = (tr, r) \<Longrightarrow>
   filter is_rm_f tr = []"
  by (auto simp: control_ta_def return_def subsample_ta_pe_def subsample_ta_se_def
      split: if_splits)

subsection \<open>Runs on concrete inputs\<close>

lemma good_run:
  "macs2 sample_lib good_world ''rep1.tagAlign.gz'' [] ''hg38.chrom.sizes'' ''hs''
     ''0.01'' 5 200 500000 0 False ''out'' =
   ([RunShellCmd (cmd0 ''rep1.tagAlign.gz'' [] ''out/rep1'' ''hs'' ''0.01'' 5 200),
     GetSize ''out/rep1_peaks.narrowPeak'',
     RunShellCmd (cmd1 6 ''out/rep1'' ''out/rep1.pval0.01.500000.narrowPeak.gz.tmp''),
     RunShellCmd (cmd2 500000 ''out/rep1.pval0.01.500000.narrowPeak.gz.tmp''
                    ''out/rep1.pval0.01.500000.narrowPeak.gz.tmp2''),
     BedClip ''out/rep1.pval0.01.500000.narrowPeak.gz.tmp2'' ''hg38.chrom.sizes''
        ''out/rep1.pval0.01.500000.narrowPeak.gz'',
     RmF [''out/rep1.pval0.01.500000.narrowPeak.gz.tmp'',
          ''out/rep1.pval0.01.500000.narrowPeak.gz.tmp2''],
     RmF [''out/rep1_*'']],
    Inr ''out/rep1.pval0.01.500000.narrowPeak.gz'')"
  by (simp add: macs2_no_control call_peaks_def run_eval world_eval path_eval
      npeak_name_def sort_mem_mb_def text_eval Let_def)

lemma control_run:
  "macs2 sample_lib good_world ''/data/rep1.tagAlign.gz'' ''/data/ctl1.tagAlign.gz''
     ''hg38.chrom.sizes'' ''hs'' ''0.01'' 0 200 500000 0 False ''out'' =
   (fst (macs2 sample_lib good_world ''/data/rep1.tagAlign.gz'' ''/data/ctl1.tagAlign.gz''
          ''hg38.chrom.sizes'' ''hs'' ''0.01'' 0 200 500000 0 False ''out''),
    Inr ''out/rep1_x_ctl1.pval0.01.500000.narrowPeak.gz'')"
  by (simp add: macs2_def control_ta_def basename_prefix_def call_peaks_def run_eval
      world_eval path_eval npeak_name_def sort_mem_mb_def text_eval Let_def)

lemma clip_fails_run:
  "macs2 sample_lib clip_fails_world ''rep1.tagAlign.gz'' [] ''hg38.chrom.sizes'' ''hs''
     ''0.01'' 5 200 500000 0 False ''out'' =
   (fst (macs2 sample_lib clip_fails_world ''rep1.tagAlign.gz'' [] ''hg38.chrom.sizes'' ''hs''
          ''0.01'' 5 200 500000 0 False ''out''),
    Inl BedClipError)"
  by (simp add: macs2_no_control call_peaks_def run_eval world_eval path_eval
      npeak_name_def sort_mem_mb_def text_eval Let_def)

text \<open>
  The scenario of the specification: two base names of 150 characters each make a
  joined name of 303 characters, and the prefix falls back to the placeholder.
\<close>

lemma long_names_use_placeholder:
  "basename_prefix sample_lib (replicate 150 (CHR ''a'')) True (replicate 150 (CHR ''c'')) =
     replicate 150 (CHR ''a'') @ ''_x_control''"
proof -
  have ne: "replicate 12 x \<noteq> ''.tagAlign.gz''" if "x \<noteq> CHR ''.''" for x
    using that by (simp add: eval_nat_numeral)
  show ?thesis
    by (simp add: basename_prefix_def path_eval Let_def takeWhile_replicate ne)
qed

text \<open>
  The emptiness check of \<open>main\<close> (line 148) runs after \<open>macs2\<close> has returned: when it
  raises, the two temporary files of the artifact it checked have been removed.
\<close>

lemma main_verify_failure_after_rm_f:
  assumes h: "snd (main L W argv) = Inl (EmptyOutputError f)"
  shows "RmF [f @ ''.tmp'', f @ ''.tmp2''] \<in> set (fst (main L W argv))"
proof (cases "parse_arguments argv")
  case (Inl e)
  then have "e = UsageError"
    by (auto simp: parse_arguments_def split: if_splits)
  with Inl h show ?thesis by (simp add: main_def)
next
  case (Inr a)
  let ?M = "macs2 L W (args_tas a ! 0) (args_tas a ! 1) (args_chrsz a) (args_gensz a)
              (args_pval_thresh a) (args_shift a) (args_fraglen a) (args_cap_num_peak a)
              (args_ctl_subsample a) (args_ctl_paired_end a) (args_out_dir a)"
  obtain t r where M: "?M = (t, r)" by (cases ?M)
  show ?thesis
  proof (cases r)
    case (Inl e)
    with M Inr have "snd (main L W argv) = Inl e"
      by (simp add: main_def and_then_def mkdir_p_def)
    with h have e: "e = EmptyOutputError f" by simp
    from M Inl have "?M = (t, Inl e)" by simp
    from macs2_error [OF this] have "e \<noteq> EmptyOutputError f" .
    with e show ?thesis by simp
  next
    case p: (Inr npeak)
    with M Inr have m: "main L W argv =
        (MkdirP (args_out_dir a) # t @ AssertFileNotEmpty npeak #
           (if file_not_empty W npeak then [LsL (args_out_dir a)] else []),
         if file_not_empty W npeak then Inr () else Inl (EmptyOutputError npeak))"
      by (simp add: main_def and_then_def mkdir_p_def assert_file_not_empty_def ls_l_def)
    with h have "f = npeak" by (simp split: if_splits)
    moreover from macs2_Inr_trace M p obtain tr0 pat where
      "t = tr0 @ [RmF [npeak @ ''.tmp'', npeak @ ''.tmp2''], RmF [pat]]" by blast
    ultimately show ?thesis by (simp add: m)
  qed
qed

subsection \<open>C3: the shift passed to the peak caller\<close>

text \<open>
  C3: the peak caller is invoked with the configured shift value. The option \<open>--shift\<close>
  is declared with the help text "macs2 callpeak --shift." and handed to \<open>macs2\<close> as
  the parameter \<open>shift\<close>, and the format string of \<open>cmd0\<close> has a place for it, but
  line 96 fills that place with the literal \<open>0\<close>. With \<open>shift = 5\<close> the command that
  is run still reads \<open>--shift 0\<close>; sample, fragment length, genome size and p-value
  threshold are passed as configured.
\<close>

theorem callpeak_shift_is_literal_zero:
  "hd (fst (macs2 sample_lib good_world ''rep1.tagAlign.gz'' [] ''hg38.chrom.sizes'' ''hs''
              ''0.01'' 5 200 500000 0 False ''out'')) =
   RunShellCmd '' macs2 callpeak -t rep1.tagAlign.gz  -f BED -n out/rep1 -g hs -p 0.01 --nomodel --shift 0 --extsize 200 --keep-dup all -B --SPMR''"
  by (simp add: macs2_no_control call_peaks_first cmd0_no_control path_eval text_eval)

subsection \<open>C4: removal of the temporary files\<close>

text \<open>
  C4, as stated: on every exit path, the failure of the clipping step included, the
  two temporary files are deleted before the call returns. The two \<open>rm_f\<close> calls are
  the last statements of \<open>macs2\<close> and there is no \<open>try\<close> around the calls before them.
  In a world where \<open>bed_clip\<close> raises, both temporary files have been written by
  \<open>cmd1\<close> and \<open>cmd2\<close>, the run ends with the error, and no \<open>rm_f\<close> call was made.
\<close>

theorem no_cleanup_when_bed_clip_raises:
  "snd (macs2 sample_lib clip_fails_world ''rep1.tagAlign.gz'' [] ''hg38.chrom.sizes'' ''hs''
          ''0.01'' 5 200 500000 0 False ''out'') = Inl BedClipError \<and>
   fst (macs2 sample_lib clip_fails_world ''rep1.tagAlign.gz'' [] ''hg38.chrom.sizes'' ''hs''
          ''0.01'' 5 200 500000 0 False ''out'') =
     [RunShellCmd (cmd0 ''rep1.tagAlign.gz'' [] ''out/rep1'' ''hs'' ''0.01'' 5 200),
      GetSize ''out/rep1_peaks.narrowPeak'',
      RunShellCmd (cmd1 6 ''out/rep1'' ''out/rep1.pval0.01.500000.narrowPeak.gz.tmp''),
      RunShellCmd (cmd2 500000 ''out/rep1.pval0.01.500000.narrowPeak.gz.tmp''
                     ''out/rep1.pval0.01.500000.narrowPeak.gz.tmp2''),
      BedClip ''out/rep1.pval0.01.500000.narrowPeak.gz.tmp2'' ''hg38.chrom.sizes''
         ''out/rep1.pval0.01.500000.narrowPeak.gz''] \<and>
   filter is_rm_f
     (fst (macs2 sample_lib clip_fails_world ''rep1.tagAlign.gz'' [] ''hg38.chrom.sizes''
             ''hs'' ''0.01'' 5 200 500000 0 False ''out'')) = []"
  by (simp add: macs2_no_control call_peaks_def run_eval world_eval path_eval
      npeak_name_def sort_mem_mb_def text_eval Let_def)

text \<open>
  C4, amended: \<open>macs2\<close> deletes exactly when it returns its result. When every
  external step went through, the run is the control branch followed by the peak
  caller, the size query, \<open>cmd1\<close> writing \<open>npeak.tmp\<close>, \<open>cmd2\<close> reading it and writing
  \<open>npeak.tmp2\<close>, \<open>bed_clip\<close> reading that and writing \<open>npeak\<close>, then \<open>rm_f\<close> on those two
  temporary files and \<open>rm_f\<close> on the pattern \<open>prefix_*\<close> of the peak caller's files, and
  nothing after them; so the files are deleted before the call returns and before a
  later verification failure. When any external step raises, the run ends with the
  error and contains no \<open>rm_f\<close> call at all.
\<close>

theorem macs2_rm_f_exactly_on_return:
  assumes "macs2 L W ta ctl_ta chrsz gensz pval_thresh shift fraglen cap_num_peak
             ctl_subsample ctl_paired_end out_dir = (tr, r)"
  shows "case r of
      Inl e \<Rightarrow> filter is_rm_f tr = []
    | Inr npeak \<Rightarrow>
        (\<exists>tr0 ctl_used prefix peaks_size.
           control_ta W ctl_ta ctl_subsample ctl_paired_end out_dir = (tr0, Inr ctl_used) \<and>
           prefix = os_path_join out_dir (basename_prefix L ta (ctl_ta \<noteq> []) ctl_used) \<and>
           npeak = npeak_name L prefix pval_thresh cap_num_peak \<and>
           file_size W (prefix @ ''_peaks.narrowPeak'') = Some peaks_size \<and>
           tr = tr0 @
             [RunShellCmd (cmd0 ta ctl_used prefix gensz pval_thresh shift fraglen),
              GetSize (prefix @ ''_peaks.narrowPeak''),
              RunShellCmd (cmd1 (sort_mem_mb peaks_size) prefix (npeak @ ''.tmp'')),
              RunShellCmd (cmd2 cap_num_peak (npeak @ ''.tmp'') (npeak @ ''.tmp2'')),
              BedClip (npeak @ ''.tmp2'') chrsz npeak,
              RmF [npeak @ ''.tmp'', npeak @ ''.tmp2''],
              RmF [prefix @ ''_*'']])"
proof (cases r)
  case (Inl e)
  with assms have m: "macs2 L W ta ctl_ta chrsz gensz pval_thresh shift fraglen cap_num_peak
             ctl_subsample ctl_paired_end out_dir = (tr, Inl e)" by simp
  from and_then_Inl [OF m [unfolded macs2_def Let_def]]
  have "filter is_rm_f tr = []"
  proof
    assume "control_ta W ctl_ta ctl_subsample ctl_paired_end out_dir = (tr, Inl e)"
    then show ?thesis by (rule control_ta_no_rm_f)
  next
    assume "\<exists>t1 x t2.
       control_ta W ctl_ta ctl_subsample ctl_paired_end out_dir = (t1, Inr x) \<and>
       call_peaks W ta x chrsz gensz pval_thresh shift fraglen cap_num_peak
         (os_path_join out_dir (basename_prefix L ta (ctl_ta \<noteq> []) x))
         (npeak_name L (os_path_join out_dir (basename_prefix L ta (ctl_ta \<noteq> []) x))
            pval_thresh cap_num_peak) = (t2, Inl e) \<and> tr = t1 @ t2"
    then obtain t1 x t2 where
      c: "control_ta W ctl_ta ctl_subsample ctl_paired_end out_dir = (t1, Inr x)"
      and p: "call_peaks W ta x chrsz gensz pval_thresh shift fraglen cap_num_peak
         (os_path_join out_dir (basename_prefix L ta (ctl_ta \<noteq> []) x))
         (npeak_name L (os_path_join out_dir (basename_prefix L ta (ctl_ta \<noteq> []) x))
            pval_thresh cap_num_peak) = (t2, Inl e)"
      and tr: "tr = t1 @ t2" by blast
    from control_ta_no_rm_f [OF c] call_peaks_Inl_no_rm_f [OF p] tr
    show ?thesis by simp
  qed
  with Inl show ?thesis by simp
next
  case (Inr npeak)
  with assms have m: "macs2 L W ta ctl_ta chrsz gensz pval_thresh shift fraglen cap_num_peak
             ctl_subsample ctl_paired_end out_dir = (tr, Inr npeak)" by simp
  let ?prefix = "\<lambda>c. os_path_join out_dir (basename_prefix L ta (ctl_ta \<noteq> []) c)"
  from and_then_Inr [OF m [unfolded macs2_def Let_def]] obtain t1 c t2 where
    ct: "control_ta W ctl_ta ctl_subsample ctl_paired_end out_dir = (t1, Inr c)"
    and cp: "call_peaks W ta c chrsz gensz pval_thresh shift fraglen cap_num_peak
       (?prefix c) (npeak_name L (?prefix c) pval_thresh cap_num_peak) = (t2, Inr npeak)"
    and tr: "tr = t1 @ t2"
    by blast
  from call_peaks_Inr_trace [OF cp] obtain peaks_size where
    n: "npeak = npeak_name L (?prefix c) pval_thresh cap_num_peak"
    and sz: "file_size W (?prefix c @ ''_peaks.narrowPeak'') = Some peaks_size"
    and t2: "t2 =
       [RunShellCmd (cmd0 ta c (?prefix c) gensz pval_thresh shift fraglen),
        GetSize (?prefix c @ ''_peaks.narrowPeak''),
        RunShellCmd (cmd1 (sort_mem_mb peaks_size) (?prefix c)
           (npeak_name L (?prefix c) pval_thresh cap_num_peak @ ''.tmp'')),
        RunShellCmd (cmd2 cap_num_peak
           (npeak_name L (?prefix c) pval_thresh cap_num_peak @ ''.tmp'')
           (npeak_name L (?prefix c) pval_thresh cap_num_peak @ ''.tmp2'')),
        BedClip (npeak_name L (?prefix c) pval_thresh cap_num_peak @ ''.tmp2'') chrsz
           (npeak_name L (?prefix c) pval_thresh cap_num_peak),
        RmF [npeak_name L (?prefix c) pval_thresh cap_num_peak @ ''.tmp'',
             npeak_name L (?prefix c) pval_thresh cap_num_peak @ ''.tmp2''],
        RmF [?prefix c @ ''_*'']]"
    by blast
  have "\<exists>tr0 ctl_used prefix peaks_size.
           control_ta W ctl_ta ctl_subsample ctl_paired_end out_dir = (tr0, Inr ctl_used) \<and>
           prefix = os_path_join out_dir (basename_prefix L ta (ctl_ta \<noteq> []) ctl_used) \<and>
           npeak = npeak_name L prefix pval_thresh cap_num_peak \<and>
           file_size W (prefix @ ''_peaks.narrowPeak'') = Some peaks_size \<and>
           tr = tr0 @
             [RunShellCmd (cmd0 ta ctl_used prefix gensz pval_thresh shift fraglen),
              GetSize (prefix @ ''_peaks.narrowPeak''),
              RunShellCmd (cmd1 (sort_mem_mb peaks_size) prefix (npeak @ ''.tmp'')),
              RunShellCmd (cmd2 cap_num_peak (npeak @ ''.tmp'') (npeak @ ''.tmp2'')),
              BedClip (npeak @ ''.tmp2'') chrsz npeak,
              RmF [npeak @ ''.tmp'', npeak @ ''.tmp2''],
              RmF [prefix @ ''_*'']]"
    apply (rule exI [of _ t1])
    apply (rule exI [of _ c])
    apply (rule exI [of _ "?prefix c"])
    apply (rule exI [of _ peaks_size])
    using ct n sz tr t2 apply simp
    done
  with Inr show ?thesis by simp
qed

text \<open>
  Witness for C4: a run with a control in which every call goes through, and the run
  in which \<open>bed_clip\<close> raises.
\<close>

theorem macs2_rm_f_exactly_on_return_witness:
  "macs2 sample_lib good_world ''/data/rep1.tagAlign.gz'' ''/data/ctl1.tagAlign.gz''
     ''hg38.chrom.sizes'' ''hs'' ''0.01'' 0 200 500000 0 False ''out'' =
   (fst (macs2 sample_lib good_world ''/data/rep1.tagAlign.gz'' ''/data/ctl1.tagAlign.gz''
          ''hg38.chrom.sizes'' ''hs'' ''0.01'' 0 200 500000 0 False ''out''),
    Inr ''out/rep1_x_ctl1.pval0.01.500000.narrowPeak.gz'') \<and>
   (\<exists>tr0 ctl_used prefix peaks_size.
      control_ta good_world ''/data/ctl1.tagAlign.gz'' 0 False ''out'' = (tr0, Inr ctl_used) \<and>
      prefix = os_path_join ''out''
                 (basename_prefix sample_lib ''/data/rep1.tagAlign.gz''
                    (''/data/ctl1.tagAlign.gz'' \<noteq> []) ctl_used) \<and>
      ''out/rep1_x_ctl1.pval0.01.500000.narrowPeak.gz'' =
        npeak_name sample_lib prefix ''0.01'' 500000 \<and>
      file_size good_world (prefix @ ''_peaks.narrowPeak'') = Some peaks_size \<and>
      fst (macs2 sample_lib good_world ''/data/rep1.tagAlign.gz'' ''/data/ctl1.tagAlign.gz''
             ''hg38.chrom.sizes'' ''hs'' ''0.01'' 0 200 500000 0 False ''out'') =
        tr0 @
          [RunShellCmd (cmd0 ''/data/rep1.tagAlign.gz'' ctl_used prefix ''hs'' ''0.01'' 0 200),
           GetSize (prefix @ ''_peaks.narrowPeak''),
           RunShellCmd (cmd1 (sort_mem_mb peaks_size) prefix
              (''out/rep1_x_ctl1.pval0.01.500000.narrowPeak.gz'' @ ''.tmp'')),
           RunShellCmd (cmd2 500000
              (''out/rep1_x_ctl1.pval0.01.500000.narrowPeak.gz'' @ ''.tmp'')
              (''out/rep1_x_ctl1.pval0.01.500000.narrowPeak.gz'' @ ''.tmp2'')),
           BedClip (''out/rep1_x_ctl1.pval0.01.500000.narrowPeak.gz'' @ ''.tmp2'')
              ''hg38.chrom.sizes'' ''out/rep1_x_ctl1.pval0.01.500000.narrowPeak.gz'',
           RmF [''out/rep1_x_ctl1.pval0.01.500000.narrowPeak.gz'' @ ''.tmp'',
                ''out/rep1_x_ctl1.pval0.01.500000.narrowPeak.gz'' @ ''.tmp2''],
           RmF [prefix @ ''_*'']]) \<and>
   macs2 sample_lib clip_fails_world ''rep1.tagAlign.gz'' [] ''hg38.chrom.sizes'' ''hs''
     ''0.01'' 5 200 500000 0 False ''out'' =
   (fst (macs2 sample_lib clip_fails_world ''rep1.tagAlign.gz'' [] ''hg38.chrom.sizes'' ''hs''
          ''0.01'' 5 200 500000 0 False ''out''),
    Inl BedClipError) \<and>
   filter is_rm_f
     (fst (macs2 sample_lib clip_fails_world ''rep1.tagAlign.gz'' [] ''hg38.chrom.sizes''
             ''hs'' ''0.01'' 5 200 500000 0 False ''out'')) = []"
proof -
  note good = macs2_rm_f_exactly_on_return [OF control_run, simplified sum.case]
  note bad = macs2_rm_f_exactly_on_return [OF clip_fails_run, simplified sum.case]
  from control_run good clip_fails_run bad show ?thesis by (intro conjI)
qed

subsection \<open>C9: the name of the artifact with a control\<close>

text \<open>
  C9: when a control file is given and \<open>macs2\<close> returns the artifact, the artifact is
  named, inside \<open>out_dir\<close>, by the base name of the sample joined by \<open>_x_\<close> to the base
  name of the control file in use (the subsampled one if subsampling ran), followed by
  the p-value and cap suffix; if the joined name is longer than 200 characters, the
  control part is the fixed word \<open>control\<close> instead.
\<close>

theorem control_basename_prefix:
  assumes "ctl_ta \<noteq> []"
    and "macs2 L W ta ctl_ta chrsz gensz pval_thresh shift fraglen cap_num_peak
           ctl_subsample ctl_paired_end out_dir = (tr, Inr npeak)"
  shows "\<exists>tr0 ctl_used.
     control_ta W ctl_ta ctl_subsample ctl_paired_end out_dir = (tr0, Inr ctl_used) \<and>
     npeak =
       os_path_join out_dir
         (if 200 < length (os_path_basename (strip_ext_ta L ta) @ ''_x_'' @
                           os_path_basename (strip_ext_ta L ctl_used))
          then os_path_basename (strip_ext_ta L ta) @ ''_x_control''
          else os_path_basename (strip_ext_ta L ta) @ ''_x_'' @
               os_path_basename (strip_ext_ta L ctl_used)) @
       ''.pval'' @ pval_thresh @ ''.'' @ human_readable_number L cap_num_peak @
       ''.narrowPeak.gz''"
proof -
  from assms(2) obtain t1 c t2 where
    ct: "control_ta W ctl_ta ctl_subsample ctl_paired_end out_dir = (t1, Inr c)"
    and cp: "call_peaks W ta c chrsz gensz pval_thresh shift fraglen cap_num_peak
       (os_path_join out_dir (basename_prefix L ta (ctl_ta \<noteq> []) c))
       (npeak_name L (os_path_join out_dir (basename_prefix L ta (ctl_ta \<noteq> []) c))
          pval_thresh cap_num_peak) = (t2, Inr npeak)"
    unfolding macs2_def Let_def by (blast dest: and_then_Inr)
  from call_peaks_Inr [OF cp]
  have n: "npeak = npeak_name L (os_path_join out_dir (basename_prefix L ta (ctl_ta \<noteq> []) c))
          pval_thresh cap_num_peak" by simp
  from n assms(1) have "npeak =
       os_path_join out_dir
         (if 200 < length (os_path_basename (strip_ext_ta L ta) @ ''_x_'' @
                           os_path_basename (strip_ext_ta L c))
          then os_path_basename (strip_ext_ta L ta) @ ''_x_control''
          else os_path_basename (strip_ext_ta L ta) @ ''_x_'' @
               os_path_basename (strip_ext_ta L c)) @
       ''.pval'' @ pval_thresh @ ''.'' @ human_readable_number L cap_num_peak @
       ''.narrowPeak.gz''"
    by (simp add: npeak_name_def basename_prefix_def Let_def)
  with ct show ?thesis by blast
qed

text \<open>Witness for C9: a sample and a control, no subsampling.\<close>

theorem control_basename_prefix_witness:
  "''/data/ctl1.tagAlign.gz'' \<noteq> [] \<and>
   macs2 sample_lib good_world ''/data/rep1.tagAlign.gz'' ''/data/ctl1.tagAlign.gz''
     ''hg38.chrom.sizes'' ''hs'' ''0.01'' 0 200 500000 0 False ''out'' =
   (fst (macs2 sample_lib good_world ''/data/rep1.tagAlign.gz'' ''/data/ctl1.tagAlign.gz''
          ''hg38.chrom.sizes'' ''hs'' ''0.01'' 0 200 500000 0 False ''out''),
    Inr ''out/rep1_x_ctl1.pval0.01.500000.narrowPeak.gz'') \<and>
   (\<exists>tr0 ctl_used.
     control_ta good_world ''/data/ctl1.tagAlign.gz'' 0 False ''out'' = (tr0, Inr ctl_used) \<and>
     ''out/rep1_x_ctl1.pval0.01.500000.narrowPeak.gz'' =
       os_path_join ''out''
         (if 200 < length (os_path_basename (strip_ext_ta sample_lib ''/data/rep1.tagAlign.gz'') @
                           ''_x_'' @ os_path_basename (strip_ext_ta sample_lib ctl_used))
          then os_path_basename (strip_ext_ta sample_lib ''/data/rep1.tagAlign.gz'') @
               ''_x_control''
          else os_path_basename (strip_ext_ta sample_lib ''/data/rep1.tagAlign.gz'') @
               ''_x_'' @ os_path_basename (strip_ext_ta sample_lib ctl_used)) @
       ''.pval'' @ ''0.01'' @ ''.'' @ human_readable_number sample_lib 500000 @
       ''.narrowPeak.gz'')"
proof -
  have ne: "''/data/ctl1.tagAlign.gz'' \<noteq> []" by simp
  from ne control_run control_basename_prefix [OF ne control_run] show ?thesis
    by (intro conjI)
qed

subsection \<open>C10: a single TAGALIGN path\<close>

text \<open>
  C10: when the command line gives exactly one path, \<open>parse_arguments\<close> appends the
  empty string as the control, and \<open>main\<close> runs \<open>macs2\<close> without the control branch:
  after \<open>mkdir_p\<close> it goes straight to the calls of lines 98 to 131 with an empty control
  and with the prefix made from the base name of the sample alone; no subsampling call
  occurs anywhere in the run; and the first shell command is the peak caller without
  a \<open>-c\<close> argument.
\<close>

theorem single_ta_skips_control:
  assumes "args_tas argv = [ta]"
  shows "parse_arguments argv = Inr (argv\<lparr>args_tas := [ta, []]\<rparr>) \<and>
     main L W argv =
       and_then (mkdir_p (args_out_dir argv)) (\<lambda>_.
       and_then (call_peaks W ta [] (args_chrsz argv) (args_gensz argv) (args_pval_thresh argv)
                   (args_shift argv) (args_fraglen argv) (args_cap_num_peak argv)
                   (os_path_join (args_out_dir argv) (os_path_basename (strip_ext_ta L ta)))
                   (npeak_name L
                      (os_path_join (args_out_dir argv) (os_path_basename (strip_ext_ta L ta)))
                      (args_pval_thresh argv) (args_cap_num_peak argv))) (\<lambda>npeak.
       and_then (assert_file_not_empty W npeak) (\<lambda>_.
       ls_l (args_out_dir argv)))) \<and>
     filter is_subsample (fst (main L W argv)) = [] \<and>
     take 2 (fst (main L W argv)) =
       [MkdirP (args_out_dir argv),
        RunShellCmd
          ('' macs2 callpeak -t '' @ ta @ ''  -f BED -n '' @
           os_path_join (args_out_dir argv) (os_path_basename (strip_ext_ta L ta)) @
           '' -g '' @ args_gensz argv @ '' -p '' @ args_pval_thresh argv @
           '' --nomodel --shift 0 --extsize '' @ show_int (args_fraglen argv) @
           '' --keep-dup all -B --SPMR'')]"
proof -
  let ?od = "args_out_dir argv"
  let ?prefix = "os_path_join ?od (os_path_basename (strip_ext_ta L ta))"
  let ?npeak = "npeak_name L ?prefix (args_pval_thresh argv) (args_cap_num_peak argv)"
  let ?cp = "call_peaks W ta [] (args_chrsz argv) (args_gensz argv) (args_pval_thresh argv)
               (args_shift argv) (args_fraglen argv) (args_cap_num_peak argv) ?prefix ?npeak"
  let ?cmd = "cmd0 ta [] ?prefix (args_gensz argv) (args_pval_thresh argv) (args_shift argv)
                (args_fraglen argv)"
  let ?rest = "and_then ?cp (\<lambda>npeak. and_then (assert_file_not_empty W npeak) (\<lambda>_. ls_l ?od))"
  from assms have p: "parse_arguments argv = Inr (argv\<lparr>args_tas := [ta, []]\<rparr>)"
    by (simp add: parse_arguments_def)
  have m: "main L W argv = and_then (mkdir_p ?od) (\<lambda>_. ?rest)"
    by (simp add: main_def p macs2_no_control)
  have "filter is_subsample (fst ?rest) = []"
    by (intro filter_and_then call_peaks_no_subsample)
       (simp_all add: assert_file_not_empty_def ls_l_def)
  then have s: "filter is_subsample (fst (main L W argv)) = []"
    by (simp add: m mkdir_and_then)
  obtain tr r where cp: "?cp = (tr, r)" by (cases ?cp)
  with call_peaks_first [of W ta "[]" "args_chrsz argv" "args_gensz argv"
      "args_pval_thresh argv" "args_shift argv" "args_fraglen argv" "args_cap_num_peak argv"
      ?prefix ?npeak]
    call_peaks_nonempty [of W ta "[]" "args_chrsz argv" "args_gensz argv"
      "args_pval_thresh argv" "args_shift argv" "args_fraglen argv" "args_cap_num_peak argv"
      ?prefix ?npeak]
  obtain tr' where tr: "tr = RunShellCmd ?cmd # tr'"
    by (cases tr) auto
  have "take 1 (fst ?rest) = [RunShellCmd ?cmd]"
    by (cases r) (simp_all add: and_then_def cp tr split: prod.splits)
  then have t: "take 2 (fst (main L W argv)) = [MkdirP ?od, RunShellCmd ?cmd]"
    by (simp add: m mkdir_and_then take_Suc_Cons numeral_2_eq_2)
  from p m s t show ?thesis
    by (simp only: cmd0_no_control)
qed

text \<open>Witness for C10: the command line \<open>rep1.tagAlign.gz --fraglen 200 --shift 5 ...\<close>.\<close>

theorem single_ta_skips_control_witness:
  "args_tas sample_args = [''rep1.tagAlign.gz''] \<and>
   parse_arguments sample_args = Inr (sample_args\<lparr>args_tas := [''rep1.tagAlign.gz'', []]\<rparr>) \<and>
   filter is_subsample (fst (main sample_lib good_world sample_args)) = [] \<and>
   take 2 (fst (main sample_lib good_world sample_args)) =
     [MkdirP ''out'',
      RunShellCmd '' macs2 callpeak -t rep1.tagAlign.gz  -f BED -n out/rep1 -g hs -p 0.01 --nomodel --shift 0 --extsize 200 --keep-dup all -B --SPMR'']"
proof -
  have h: "args_tas sample_args = [''rep1.tagAlign.gz'']" by (simp add: sample_args_def)
  note w = single_ta_skips_control [OF h, of sample_lib good_world]
  from w have p: "parse_arguments sample_args =
      Inr (sample_args\<lparr>args_tas := [''rep1.tagAlign.gz'', []]\<rparr>)"
    by (rule conjunct1)
  from w have f: "filter is_subsample (fst (main sample_lib good_world sample_args)) = []"
    by (elim conjE)
  have e: "[MkdirP (args_out_dir sample_args),
        RunShellCmd
          ('' macs2 callpeak -t '' @ ''rep1.tagAlign.gz'' @ ''  -f BED -n '' @
           os_path_join (args_out_dir sample_args)
             (os_path_basename (strip_ext_ta sample_lib ''rep1.tagAlign.gz'')) @
           '' -g '' @ args_gensz sample_args @ '' -p '' @ args_pval_thresh sample_args @
           '' --nomodel --shift 0 --extsize '' @ show_int (args_fraglen sample_args) @
           '' --keep-dup all -B --SPMR'')] =
     [MkdirP ''out'',
      RunShellCmd '' macs2 callpeak -t rep1.tagAlign.gz  -f BED -n out/rep1 -g hs -p 0.01 --nomodel --shift 0 --extsize 200 --keep-dup all -B --SPMR'']"
    by (simp add: sample_args_def path_eval text_eval)
  from w have t0: "take 2 (fst (main sample_lib good_world sample_args)) =
     [MkdirP (args_out_dir sample_args),
        RunShellCmd
          ('' macs2 callpeak -t '' @ ''rep1.tagAlign.gz'' @ ''  -f BED -n '' @
           os_path_join (args_out_dir sample_args)
             (os_path_basename (strip_ext_ta sample_lib ''rep1.tagAlign.gz'')) @
           '' -g '' @ args_gensz sample_args @ '' -p '' @ args_pval_thresh sample_args @
           '' --nomodel --shift 0 --extsize '' @ show_int (args_fraglen sample_args) @
           '' --keep-dup all -B --SPMR'')]"
    by (elim conjE)
  from t0 e have t: "take 2 (fst (main sample_lib good_world sample_args)) =
     [MkdirP ''out'',
      RunShellCmd '' macs2 callpeak -t rep1.tagAlign.gz  -f BED -n out/rep1 -g hs -p 0.01 --nomodel --shift 0 --extsize 200 --keep-dup all -B --SPMR'']"
    by (rule trans)
  from h p f t show ?thesis by (intro conjI)
qed

end
